theory Spec2Isabelle
  imports Main "HOL-Library.AList"
begin

section \<open>The JSON assignment driver of keystone-json-assignment\<close>

text \<open>
  The module \<^verbatim>\<open>keystone_json_assignment/json.py\<close> defines one class, \<^verbatim>\<open>Assignment\<close>, a
  subclass of Keystone's SQL assignment driver. Its constructor reads a map from user
  names to project names and resolves both to identifiers; its read methods add
  synthetic grants of one role for the pairs of that map; its write methods forward
  to the SQL driver.

  The host framework is not part of the module. Its managers and its configuration are
  taken as a parameter (\<open>host\<close>), the methods of the SQL superclass as another
  (\<open>sql_driver\<close>), each with the contract its interface documents: a lookup by name
  returns a reference or raises its \<^verbatim>\<open>NotFound\<close> exception, the SQL check of a grant
  returns \<^verbatim>\<open>None\<close> or raises \<^verbatim>\<open>RoleAssignmentNotFound\<close> (the docstring of
  \<^verbatim>\<open>check_grant_role_id\<close>), the SQL queries read the database without changing it.
  Logging is not modelled.

  The model follows Python 3 (3.7 or later): a dictionary is iterated in the order in
  which its keys were inserted, and an exception object has no attribute \<^verbatim>\<open>message\<close>.
\<close>

subsection \<open>Values\<close>

type_synonym ident = string

text \<open>A reference returned by a manager: a dictionary of which the module reads \<^verbatim>\<open>'id'\<close>.\<close>

record entity =
  entity_id :: ident
  entity_name :: string

text \<open>A Python dictionary, as its items in iteration order; a key occurs once.\<close>

type_synonym ('k, 'v) dict = "('k \<times> 'v) list"

text \<open>A role assignment as the drivers return it: a dictionary from field names to values.\<close>

type_synonym role_assignment = "(string, string) dict"

datatype error = IndexError | AttributeError | ProjectNotFound | RoleAssignmentNotFound

text \<open>
  \<^verbatim>\<open>k in d\<close> followed by \<^verbatim>\<open>d[k]\<close>, for a key that may be \<^verbatim>\<open>None\<close> (the default of the
  keyword arguments): \<^verbatim>\<open>None\<close> is never a key of the dictionaries of this module.
\<close>

fun py_lookup :: "'k option \<Rightarrow> ('k, 'v) dict \<Rightarrow> 'v option" where
  "py_lookup None d = None"
| "py_lookup (Some k) d = map_of d k"

fun py_in :: "'k option \<Rightarrow> ('k, 'v) dict \<Rightarrow> bool" where
  "py_in None d = False"
| "py_in (Some k) d = (k \<in> fst ` set d)"

subsection \<open>The host framework and the SQL driver\<close>

text \<open>
  \<open>default_roles\<close>, \<open>ldap_domain_name\<close> and \<open>default_domain_id\<close> are
  \<^verbatim>\<open>CONF.json_assignment.default_roles\<close>, \<^verbatim>\<open>CONF.json_assignment.ldap_domain_name\<close> and
  \<^verbatim>\<open>CONF.identity.default_domain_id\<close>. \<open>list_roles n\<close> is \<^verbatim>\<open>role_manager.list_roles\<close>
  under the hint that filters the name \<open>n\<close>. \<open>get_project_by_name\<close> and
  \<open>get_user_by_name\<close> give \<open>None\<close> where the manager raises \<^verbatim>\<open>ProjectNotFound\<close> or
  \<^verbatim>\<open>UserNotFound\<close>. \<open>get_public_id d l t\<close> is \<^verbatim>\<open>id_mapping_manager.get_public_id\<close> of
  the domain id, local id and entity type; it may return \<^verbatim>\<open>None\<close>.
\<close>

record host =
  default_roles :: "string list"
  ldap_domain_name :: string
  default_domain_id :: ident
  list_roles :: "string \<Rightarrow> entity list"
  get_project_by_name :: "string \<Rightarrow> ident option \<Rightarrow> entity option"
  get_user_by_name :: "string \<Rightarrow> string \<Rightarrow> entity option"
  get_public_id :: "ident \<Rightarrow> ident \<Rightarrow> string \<Rightarrow> ident option"

text \<open>
  The methods of \<^verbatim>\<open>sql.Assignment\<close> that the module calls through \<^verbatim>\<open>super\<close>, over a
  database \<open>'db\<close>. The check gives \<open>True\<close> where it returns and \<open>False\<close> where it
  raises \<^verbatim>\<open>RoleAssignmentNotFound\<close>. A write gives its outcome \<open>'r\<close> (a value or an
  exception) and the database after it.
\<close>

record ('db, 'r) sql_driver =
  sql_list_grant_role_ids ::
    "ident option \<Rightarrow> ident option \<Rightarrow> ident option \<Rightarrow> ident option \<Rightarrow> bool \<Rightarrow> 'db \<Rightarrow> ident list"
  sql_check_grant_role_id ::
    "ident \<Rightarrow> ident option \<Rightarrow> ident option \<Rightarrow> ident option \<Rightarrow> ident option \<Rightarrow> bool \<Rightarrow> 'db \<Rightarrow> bool"
  sql_list_role_assignments ::
    "ident option \<Rightarrow> ident option \<Rightarrow> ident list option \<Rightarrow> ident option \<Rightarrow> ident list option
       \<Rightarrow> bool option \<Rightarrow> 'db \<Rightarrow> role_assignment list"
  sql_add_role_to_user_and_project :: "ident \<Rightarrow> ident \<Rightarrow> ident \<Rightarrow> 'db \<Rightarrow> 'r \<times> 'db"
  sql_remove_role_from_user_and_project :: "ident \<Rightarrow> ident \<Rightarrow> ident \<Rightarrow> 'db \<Rightarrow> 'r \<times> 'db"
  sql_create_grant ::
    "ident \<Rightarrow> ident option \<Rightarrow> ident option \<Rightarrow> ident option \<Rightarrow> ident option \<Rightarrow> bool \<Rightarrow> 'db \<Rightarrow> 'r \<times> 'db"
  sql_delete_grant ::
    "ident \<Rightarrow> ident option \<Rightarrow> ident option \<Rightarrow> ident option \<Rightarrow> ident option \<Rightarrow> bool \<Rightarrow> 'db \<Rightarrow> 'r \<times> 'db"
  sql_delete_project_assignments :: "ident \<Rightarrow> 'db \<Rightarrow> 'r \<times> 'db"
  sql_delete_role_assignments :: "ident \<Rightarrow> 'db \<Rightarrow> 'r \<times> 'db"
  sql_delete_user_assignments :: "ident \<Rightarrow> 'db \<Rightarrow> 'r \<times> 'db"
  sql_delete_group_assignments :: "ident \<Rightarrow> 'db \<Rightarrow> 'r \<times> 'db"
  sql_delete_domain_assignments :: "ident \<Rightarrow> 'db \<Rightarrow> 'r \<times> 'db"

subsection \<open>The object\<close>

text \<open>
  The attributes that \<^verbatim>\<open>__init__\<close> sets. \<open>userprojectmap\<close> maps a user id to a
  dictionary used as a set: its keys are project ids, its values are all \<open>1\<close>.
\<close>

record assignment =
  domain_name :: string
  domain_id :: ident
  role_id :: ident
  userprojectmap :: "(ident, (ident, int) dict) dict"

text \<open>What a method runs on: the object and the database behind the SQL driver.\<close>

type_synonym 'db state = "assignment \<times> 'db"

subsection \<open>Construction\<close>

text \<open>
  \<^verbatim>\<open>_get_role_id\<close>: both \<^verbatim>\<open>[0]\<close> raise \<^verbatim>\<open>IndexError\<close> on an empty list.
\<close>

definition get_role_id :: "host \<Rightarrow> error + ident" where
  "get_role_id h =
     (case default_roles h of
        [] \<Rightarrow> Inl IndexError
      | role_name # _ \<Rightarrow>
          (case list_roles h role_name of
             [] \<Rightarrow> Inl IndexError
           | r # _ \<Rightarrow> Inr (entity_id r)))"

text \<open>
  \<^verbatim>\<open>_get_user_id\<close>: \<open>None\<close> where the user is not found, the public id (which may be
  \<^verbatim>\<open>None\<close>) otherwise. The domain name is passed where the manager takes a domain, as in
  the source.
\<close>

definition get_user_id :: "host \<Rightarrow> assignment \<Rightarrow> string \<Rightarrow> ident option" where
  "get_user_id h self user_name =
     (case get_user_by_name h user_name (domain_name self) of
        None \<Rightarrow> None
      | Some u \<Rightarrow> get_public_id h (domain_id self) (entity_id u) ''user'')"

text \<open>
  The \<^verbatim>\<open>try\<close> statement in the inner loop of \<^verbatim>\<open>__init__\<close>: the id of a project name
  comes from the cache, or from the resource manager, which fills the cache. The handler
  of \<^verbatim>\<open>ProjectNotFound\<close> evaluates \<^verbatim>\<open>e.message\<close>; in Python 3 an exception has no
  attribute \<^verbatim>\<open>message\<close>, so the handler raises \<^verbatim>\<open>AttributeError\<close>, which no
  statement of \<^verbatim>\<open>__init__\<close> catches.
\<close>

definition init_project_lookup ::
  "host \<Rightarrow> string \<Rightarrow> (string, ident) dict \<Rightarrow> error + ident option \<times> (string, ident) dict" where
  "init_project_lookup h projectname projectidcache =
     (case map_of projectidcache projectname of
        Some cached \<Rightarrow> Inr (Some cached, projectidcache)
      | None \<Rightarrow>
          (case get_project_by_name h projectname (Some (default_domain_id h)) of
             Some project \<Rightarrow>
               Inr (Some (entity_id project),
                    AList.update projectname (entity_id project) projectidcache)
           | None \<Rightarrow> Inl AttributeError))"

text \<open>
  The body of the inner loop, for one project name. Its variables are \<^verbatim>\<open>projectids\<close>,
  \<^verbatim>\<open>projectid\<close> (\<^verbatim>\<open>None\<close> before the first round) and \<^verbatim>\<open>projectidcache\<close>. An id that
  is empty is not added (\<^verbatim>\<open>if projectid:\<close>).
\<close>

fun init_project ::
  "host \<Rightarrow> string \<Rightarrow> (ident, int) dict \<times> ident option \<times> (string, ident) dict
     \<Rightarrow> error + (ident, int) dict \<times> ident option \<times> (string, ident) dict" where
  "init_project h projectname (projectids, projectid, projectidcache) =
     (case init_project_lookup h projectname projectidcache of
        Inl e \<Rightarrow> Inl e
      | Inr (projectid', projectidcache') \<Rightarrow>
          Inr ((case projectid' of
                  None \<Rightarrow> projectids
                | Some p \<Rightarrow> if p \<noteq> [] then AList.update p 1 projectids else projectids),
               projectid', projectidcache'))"

text \<open>The inner loop, over the project names of one user; an exception ends it.\<close>

fun init_projects ::
  "host \<Rightarrow> string list \<Rightarrow> (ident, int) dict \<times> ident option \<times> (string, ident) dict
     \<Rightarrow> error + (ident, int) dict \<times> ident option \<times> (string, ident) dict" where
  "init_projects h [] vars = Inr vars"
| "init_projects h (projectname # rest) vars =
     (case init_project h projectname vars of
        Inl e \<Rightarrow> Inl e
      | Inr vars' \<Rightarrow> init_projects h rest vars')"

text \<open>
  The body of the outer loop, for one item of the parsed file. A user id that is
  \<^verbatim>\<open>None\<close> or empty is skipped (\<^verbatim>\<open>if not user_id: continue\<close>); otherwise the project
  ids of the item are stored under the user id, in place of what was stored there.
\<close>

fun init_user ::
  "host \<Rightarrow> string \<times> string list \<Rightarrow> assignment \<times> (string, ident) dict
     \<Rightarrow> error + assignment \<times> (string, ident) dict" where
  "init_user h (user, project) (self, projectidcache) =
     (case get_user_id h self user of
        None \<Rightarrow> Inr (self, projectidcache)
      | Some user_id \<Rightarrow>
          if user_id = [] then Inr (self, projectidcache)
          else
            (case init_projects h project ([], None, projectidcache) of
               Inl e \<Rightarrow> Inl e
             | Inr (projectids, _, projectidcache') \<Rightarrow>
                 Inr (self\<lparr>userprojectmap :=
                            AList.update user_id projectids (userprojectmap self)\<rparr>,
                      projectidcache')))"

text \<open>The outer loop, over the items of the parsed file in the order of iteration.\<close>

fun init_users ::
  "host \<Rightarrow> (string \<times> string list) list \<Rightarrow> assignment \<times> (string, ident) dict
     \<Rightarrow> error + assignment \<times> (string, ident) dict" where
  "init_users h [] vars = Inr vars"
| "init_users h (item # rest) vars =
     (case init_user h item vars of
        Inl e \<Rightarrow> Inl e
      | Inr vars' \<Rightarrow> init_users h rest vars')"

text \<open>
  \<^verbatim>\<open>__init__\<close>. The argument is the content of \<^verbatim>\<open>/etc/keystone/user-project-map.json\<close>
  as \<^verbatim>\<open>yaml.load\<close> returns it: the items of a dictionary from user names to lists of
  project names, in the order in which the dictionary is iterated (in Python 3.7 and
  later, the order of the file). No method takes it again. The lookup of the domain
  raises \<^verbatim>\<open>ProjectNotFound\<close> where the domain is unknown.
\<close>

definition init :: "host \<Rightarrow> (string \<times> string list) list \<Rightarrow> error + assignment" where
  "init h userprojectmap_file =
     (case get_project_by_name h (ldap_domain_name h) None of
        None \<Rightarrow> Inl ProjectNotFound
      | Some domain \<Rightarrow>
          (case get_role_id h of
             Inl e \<Rightarrow> Inl e
           | Inr r \<Rightarrow>
               (case init_users h userprojectmap_file
                  (\<lparr>domain_name = ldap_domain_name h, domain_id = entity_id domain,
                    role_id = r, userprojectmap = []\<rparr>, []) of
                  Inl e \<Rightarrow> Inl e
                | Inr vars \<Rightarrow> Inr (fst vars))))"

subsection \<open>Read methods\<close>

text \<open>
  The arguments of the grant methods are \<^verbatim>\<open>user_id\<close>, \<^verbatim>\<open>group_id\<close>, \<^verbatim>\<open>domain_id\<close>,
  \<^verbatim>\<open>project_id\<close> and \<^verbatim>\<open>inherited_to_projects\<close>, in this order, written \<open>u g d p i\<close>.
\<close>

definition list_grant_role_ids ::
  "('db, 'r) sql_driver \<Rightarrow> ident option \<Rightarrow> ident option \<Rightarrow> ident option \<Rightarrow> ident option \<Rightarrow> bool
     \<Rightarrow> 'db state \<Rightarrow> ident list \<times> 'db state" where
  "list_grant_role_ids sql u g d p i st =
     (case st of (self, db) \<Rightarrow>
        (let role_ids = sql_list_grant_role_ids sql u g d p i db in
         (case py_lookup u (userprojectmap self) of
            None \<Rightarrow> (role_ids, st)
          | Some projectids \<Rightarrow>
              if py_in p projectids then (role_ids @ [role_id self], st)
              else (role_ids, st))))"

definition check_grant_role_id ::
  "('db, 'r) sql_driver \<Rightarrow> ident \<Rightarrow> ident option \<Rightarrow> ident option \<Rightarrow> ident option \<Rightarrow> ident option
     \<Rightarrow> bool \<Rightarrow> 'db state \<Rightarrow> (error + unit) \<times> 'db state" where
  "check_grant_role_id sql r u g d p i st =
     (case st of (self, db) \<Rightarrow>
        if sql_check_grant_role_id sql r u g d p i db then (Inr (), st)
        else if r \<noteq> role_id self then (Inl RoleAssignmentNotFound, st)
        else
          (case py_lookup u (userprojectmap self) of
             None \<Rightarrow> (Inl RoleAssignmentNotFound, st)
           | Some projectids \<Rightarrow>
               if \<not> py_in p projectids then (Inl RoleAssignmentNotFound, st)
               else (Inr (), st)))"

text \<open>The two loops of \<^verbatim>\<open>list_role_assignments\<close>, appending to the list of the SQL driver.\<close>

fun append_projects ::
  "ident \<Rightarrow> ident \<Rightarrow> (ident, int) dict \<Rightarrow> role_assignment list \<Rightarrow> role_assignment list" where
  "append_projects r user_id [] role_assignments = role_assignments"
| "append_projects r user_id ((project, v) # rest) role_assignments =
     append_projects r user_id rest
       (role_assignments @
          [[(''role_id'', r), (''user_id'', user_id), (''project_id'', project)]])"

fun append_users ::
  "ident \<Rightarrow> (ident, (ident, int) dict) dict \<Rightarrow> role_assignment list \<Rightarrow> role_assignment list" where
  "append_users r [] role_assignments = role_assignments"
| "append_users r ((user_id, projects) # rest) role_assignments =
     append_users r rest (append_projects r user_id projects role_assignments)"

text \<open>
  The filters are \<^verbatim>\<open>role_id\<close>, \<^verbatim>\<open>user_id\<close>, \<^verbatim>\<open>group_ids\<close>, \<^verbatim>\<open>domain_id\<close>,
  \<^verbatim>\<open>project_ids\<close> and \<^verbatim>\<open>inherited_to_projects\<close>, in this order.
\<close>

definition list_role_assignments ::
  "('db, 'r) sql_driver \<Rightarrow> ident option \<Rightarrow> ident option \<Rightarrow> ident list option \<Rightarrow> ident option
     \<Rightarrow> ident list option \<Rightarrow> bool option \<Rightarrow> 'db state \<Rightarrow> role_assignment list \<times> 'db state" where
  "list_role_assignments sql r u gs d ps i st =
     (case st of (self, db) \<Rightarrow>
        (append_users (role_id self) (userprojectmap self)
           (sql_list_role_assignments sql r u gs d ps i db), st))"

subsection \<open>Write methods\<close>

definition add_role_to_user_and_project ::
  "('db, 'r) sql_driver \<Rightarrow> ident \<Rightarrow> ident \<Rightarrow> ident \<Rightarrow> 'db state \<Rightarrow> 'r \<times> 'db state" where
  "add_role_to_user_and_project sql user_id tenant_id r st =
     (case st of (self, db) \<Rightarrow>
        (case sql_add_role_to_user_and_project sql user_id tenant_id r db of
           (res, db') \<Rightarrow> (res, (self, db'))))"

definition remove_role_from_user_and_project ::
  "('db, 'r) sql_driver \<Rightarrow> ident \<Rightarrow> ident \<Rightarrow> ident \<Rightarrow> 'db state \<Rightarrow> 'r \<times> 'db state" where
  "remove_role_from_user_and_project sql user_id tenant_id r st =
     (case st of (self, db) \<Rightarrow>
        (case sql_remove_role_from_user_and_project sql user_id tenant_id r db of
           (res, db') \<Rightarrow> (res, (self, db'))))"

definition create_grant ::
  "('db, 'r) sql_driver \<Rightarrow> ident \<Rightarrow> ident option \<Rightarrow> ident option \<Rightarrow> ident option \<Rightarrow> ident option
     \<Rightarrow> bool \<Rightarrow> 'db state \<Rightarrow> 'r \<times> 'db state" where
  "create_grant sql r u g d p i st =
     (case st of (self, db) \<Rightarrow>
        (case sql_create_grant sql r u g d p i db of
           (res, db') \<Rightarrow> (res, (self, db'))))"

definition delete_grant ::
  "('db, 'r) sql_driver \<Rightarrow> ident \<Rightarrow> ident option \<Rightarrow> ident option \<Rightarrow> ident option \<Rightarrow> ident option
     \<Rightarrow> bool \<Rightarrow> 'db state \<Rightarrow> 'r \<times> 'db state" where
  "delete_grant sql r u g d p i st =
     (case st of (self, db) \<Rightarrow>
        (case sql_delete_grant sql r u g d p i db of
           (res, db') \<Rightarrow> (res, (self, db'))))"

definition delete_project_assignments ::
  "('db, 'r) sql_driver \<Rightarrow> ident \<Rightarrow> 'db state \<Rightarrow> 'r \<times> 'db state" where
  "delete_project_assignments sql project_id st =
     (case st of (self, db) \<Rightarrow>
        (case sql_delete_project_assignments sql project_id db of
           (res, db') \<Rightarrow> (res, (self, db'))))"

definition delete_role_assignments ::
  "('db, 'r) sql_driver \<Rightarrow> ident \<Rightarrow> 'db state \<Rightarrow> 'r \<times> 'db state" where
  "delete_role_assignments sql r st =
     (case st of (self, db) \<Rightarrow>
        (case sql_delete_role_assignments sql r db of
           (res, db') \<Rightarrow> (res, (self, db'))))"

definition delete_user_assignments ::
  "('db, 'r) sql_driver \<Rightarrow> ident \<Rightarrow> 'db state \<Rightarrow> 'r \<times> 'db state" where
  "delete_user_assignments sql user_id st =
     (case st of (self, db) \<Rightarrow>
        (case sql_delete_user_assignments sql user_id db of
           (res, db') \<Rightarrow> (res, (self, db'))))"

definition delete_group_assignments ::
  "('db, 'r) sql_driver \<Rightarrow> ident \<Rightarrow> 'db state \<Rightarrow> 'r \<times> 'db state" where
  "delete_group_assignments sql group_id st =
     (case st of (self, db) \<Rightarrow>
        (case sql_delete_group_assignments sql group_id db of
           (res, db') \<Rightarrow> (res, (self, db'))))"

definition delete_domain_assignments ::
  "('db, 'r) sql_driver \<Rightarrow> ident \<Rightarrow> 'db state \<Rightarrow> 'r \<times> 'db state" where
  "delete_domain_assignments sql d st =
     (case st of (self, db) \<Rightarrow>
        (case sql_delete_domain_assignments sql d db of
           (res, db') \<Rightarrow> (res, (self, db'))))"

subsection \<open>Calls in sequence\<close>

text \<open>A call of a method of the driver, with its arguments.\<close>

datatype call =
    ListGrantRoleIds "ident option" "ident option" "ident option" "ident option" bool
  | CheckGrantRoleId ident "ident option" "ident option" "ident option" "ident option" bool
  | ListRoleAssignments "ident option" "ident option" "ident list option" "ident option"
      "ident list option" "bool option"
  | AddRoleToUserAndProject ident ident ident
  | RemoveRoleFromUserAndProject ident ident ident
  | CreateGrant ident "ident option" "ident option" "ident option" "ident option" bool
  | DeleteGrant ident "ident option" "ident option" "ident option" "ident option" bool
  | DeleteProjectAssignments ident
  | DeleteRoleAssignments ident
  | DeleteUserAssignments ident
  | DeleteGroupAssignments ident
  | DeleteDomainAssignments ident

text \<open>The state after a call, whatever the call returns or raises.\<close>

fun after_call :: "('db, 'r) sql_driver \<Rightarrow> call \<Rightarrow> 'db state \<Rightarrow> 'db state" where
  "after_call sql (ListGrantRoleIds u g d p i) st = snd (list_grant_role_ids sql u g d p i st)"
| "after_call sql (CheckGrantRoleId r u g d p i) st = snd (check_grant_role_id sql r u g d p i st)"
| "after_call sql (ListRoleAssignments r u gs d ps i) st =
     snd (list_role_assignments sql r u gs d ps i st)"
| "after_call sql (AddRoleToUserAndProject u t r) st =
     snd (add_role_to_user_and_project sql u t r st)"
| "after_call sql (RemoveRoleFromUserAndProject u t r) st =
     snd (remove_role_from_user_and_project sql u t r st)"
| "after_call sql (CreateGrant r u g d p i) st = snd (create_grant sql r u g d p i st)"
| "after_call sql (DeleteGrant r u g d p i) st = snd (delete_grant sql r u g d p i st)"
| "after_call sql (DeleteProjectAssignments p) st = snd (delete_project_assignments sql p st)"
| "after_call sql (DeleteRoleAssignments r) st = snd (delete_role_assignments sql r st)"
| "after_call sql (DeleteUserAssignments u) st = snd (delete_user_assignments sql u st)"
| "after_call sql (DeleteGroupAssignments g) st = snd (delete_group_assignments sql g st)"
| "after_call sql (DeleteDomainAssignments d) st = snd (delete_domain_assignments sql d st)"

fun after_calls :: "('db, 'r) sql_driver \<Rightarrow> call list \<Rightarrow> 'db state \<Rightarrow> 'db state" where
  "after_calls sql [] st = st"
| "after_calls sql (c # cs) st = after_calls sql cs (after_call sql c st)"

subsection \<open>Notions of the specification\<close>

text \<open>
  The keys of the user-project map, the project set of a user, and the condition under
  which the map grants the role: the user is a key and the project is in its set.
\<close>

definition user_keys :: "assignment \<Rightarrow> ident set" where
  "user_keys self = fst ` set (userprojectmap self)"

definition project_set :: "assignment \<Rightarrow> ident \<Rightarrow> ident set" where
  "project_set self user_id =
     (case map_of (userprojectmap self) user_id of
        None \<Rightarrow> {}
      | Some projectids \<Rightarrow> fst ` set projectids)"

fun map_grants :: "assignment \<Rightarrow> ident option \<Rightarrow> ident option \<Rightarrow> bool" where
  "map_grants self (Some user_id) (Some project_id) =
     (user_id \<in> user_keys self \<and> project_id \<in> project_set self user_id)"
| "map_grants self _ _ = False"

text \<open>
  What the resource manager answers for each of a list of project names, in the default
  domain: the id of the project, or \<open>None\<close> where the name is not found.
\<close>

definition named_project_ids :: "host \<Rightarrow> string list \<Rightarrow> ident option list" where
  "named_project_ids h projectnames =
     map (\<lambda>projectname.
            map_option entity_id
              (get_project_by_name h projectname (Some (default_domain_id h))))
       projectnames"

text \<open>The dictionary that \<^verbatim>\<open>list_role_assignments\<close> appends for a pair, and the pairs of a map.\<close>

definition synthetic_assignment :: "ident \<Rightarrow> ident \<Rightarrow> ident \<Rightarrow> role_assignment" where
  "synthetic_assignment r user_id project_id =
     [(''role_id'', r), (''user_id'', user_id), (''project_id'', project_id)]"

definition map_pairs :: "(ident, (ident, int) dict) dict \<Rightarrow> (ident \<times> ident) list" where
  "map_pairs m = concat (map (\<lambda>(u, ps). map (\<lambda>(p, v). (u, p)) ps) m)"

subsection \<open>Invariants of the construction loops\<close>

text \<open>
  The cache holds only what the resource manager answers. A well-formed map has each
  key once, at both levels.
\<close>

definition cache_ok :: "host \<Rightarrow> (string, ident) dict \<Rightarrow> bool" where
  "cache_ok h projectidcache =
     (\<forall>n c. map_of projectidcache n = Some c \<longrightarrow>
        (\<exists>project. get_project_by_name h n (Some (default_domain_id h)) = Some project
           \<and> entity_id project = c))"

definition wf_map :: "(ident, (ident, int) dict) dict \<Rightarrow> bool" where
  "wf_map m = (distinct (map fst m) \<and> list_all (\<lambda>(u, ps). distinct (map fst ps)) m)"

subsection \<open>An example deployment\<close>

text \<open>
  A host with two users and two projects, whose user lookup ignores the case of
  \<open>alice\<close>, and an SQL driver over a list of (user, project, role) grants.
\<close>

definition example_host :: host where
  "example_host =
     \<lparr>default_roles = [''Member''],
      ldap_domain_name = ''ldap_users'',
      default_domain_id = ''default'',
      list_roles = (\<lambda>n. if n = ''Member''
         then [\<lparr>entity_id = ''r-member'', entity_name = ''Member''\<rparr>,
               \<lparr>entity_id = ''r-other'', entity_name = ''Member''\<rparr>] else []),
      get_project_by_name = (\<lambda>n d.
         if n = ''ldap_users'' \<and> d = None then Some \<lparr>entity_id = ''d-ldap'', entity_name = n\<rparr>
         else if n = ''p1'' \<and> d = Some ''default'' then Some \<lparr>entity_id = ''P1'', entity_name = n\<rparr>
         else if n = ''p2'' \<and> d = Some ''default'' then Some \<lparr>entity_id = ''P2'', entity_name = n\<rparr>
         else None),
      get_user_by_name = (\<lambda>n d.
         if d = ''ldap_users'' \<and> (n = ''Alice'' \<or> n = ''alice'')
           then Some \<lparr>entity_id = ''alice'', entity_name = ''alice''\<rparr>
         else if d = ''ldap_users'' \<and> n = ''bob''
           then Some \<lparr>entity_id = ''bob'', entity_name = ''bob''\<rparr>
         else None),
      get_public_id = (\<lambda>d l t. if d = ''d-ldap'' \<and> t = ''user'' then Some (''pub-'' @ l) else None)\<rparr>"

definition example_sql :: "((ident \<times> ident \<times> ident) list, unit) sql_driver" where
  "example_sql =
     \<lparr>sql_list_grant_role_ids = (\<lambda>u g d p i db.
        map (\<lambda>(a, t, r). r) (filter (\<lambda>(a, t, r). Some a = u \<and> Some t = p) db)),
      sql_check_grant_role_id = (\<lambda>r u g d p i db.
        list_ex (\<lambda>(a, t, r'). Some a = u \<and> Some t = p \<and> r' = r) db),
      sql_list_role_assignments = (\<lambda>r u gs d ps i db.
        map (\<lambda>(a, t, r'). [(''role_id'', r'), (''user_id'', a), (''project_id'', t)])
          (filter (\<lambda>(a, t, r'). (r = None \<or> r = Some r') \<and> (u = None \<or> u = Some a)) db)),
      sql_add_role_to_user_and_project = (\<lambda>u t r db. ((), db @ [(u, t, r)])),
      sql_remove_role_from_user_and_project = (\<lambda>u t r db. ((), removeAll (u, t, r) db)),
      sql_create_grant = (\<lambda>r u g d p i db.
        ((), case u of None \<Rightarrow> db | Some a \<Rightarrow> (case p of None \<Rightarrow> db | Some t \<Rightarrow> db @ [(a, t, r)]))),
      sql_delete_grant = (\<lambda>r u g d p i db.
        ((), case u of None \<Rightarrow> db | Some a \<Rightarrow> (case p of None \<Rightarrow> db | Some t \<Rightarrow> removeAll (a, t, r) db))),
      sql_delete_project_assignments = (\<lambda>x db. ((), filter (\<lambda>(a, t, r). t \<noteq> x) db)),
      sql_delete_role_assignments = (\<lambda>x db. ((), filter (\<lambda>(a, t, r). r \<noteq> x) db)),
      sql_delete_user_assignments = (\<lambda>x db. ((), filter (\<lambda>(a, t, r). a \<noteq> x) db)),
      sql_delete_group_assignments = (\<lambda>x db. ((), db)),
      sql_delete_domain_assignments = (\<lambda>x db. ((), db))\<rparr>"

definition example_self :: assignment where
  "example_self = \<lparr>domain_name = ''ldap_users'', domain_id = ''d-ldap'', role_id = ''r-member'',
     userprojectmap = [(''pub-alice'', [(''P1'', 1), (''P2'', 1)]), (''pub-bob'', [(''P2'', 1)])]\<rparr>"

definition example_items :: "(string \<times> string list) list" where
  "example_items =
     [(''alice'', [''p1'', ''p2'', ''p1'']), (''ghost'', [''p1'']), (''bob'', [''p2''])]"

definition example_db :: "(ident \<times> ident \<times> ident) list" where
  "example_db = [(''pub-alice'', ''P1'', ''r-member''), (''carol'', ''P9'', ''r-admin'')]"

definition example_calls :: "call list" where
  "example_calls =
     [ListGrantRoleIds (Some ''pub-alice'') None None (Some ''P1'') False,
      DeleteUserAssignments ''pub-alice'',
      DeleteProjectAssignments ''P2'',
      DeleteRoleAssignments ''r-member'',
      CheckGrantRoleId ''r-member'' (Some ''pub-bob'') None None (Some ''P2'') False,
      AddRoleToUserAndProject ''pub-bob'' ''P1'' ''r-admin'']"

definition alias_items :: "(string \<times> string list) list" where
  "alias_items = [(''Alice'', [''p1'']), (''alice'', [''p2''])]"

definition alias_self :: assignment where
  "alias_self = \<lparr>domain_name = ''ldap_users'', domain_id = ''d-ldap'', role_id = ''r-member'',
     userprojectmap = [(''pub-alice'', [(''P2'', 1)])]\<rparr>"

section \<open>Read methods\<close>

lemma py_lookup_in_iff:
  "(\<exists>projectids. py_lookup u (userprojectmap self) = Some projectids \<and> py_in p projectids)
     = map_grants self u p"
proof (cases u)
  case None
  then show ?thesis by simp
next
  case (Some u')
  show ?thesis
  proof (cases p)
    case None
    with Some show ?thesis by simp
  next
    case (Some p')
    have "u' \<in> fst ` set (userprojectmap self) \<longleftrightarrow> map_of (userprojectmap self) u' \<noteq> None"
      by (simp add: map_of_eq_None_iff)
    with Some \<open>u = Some u'\<close> show ?thesis
      by (cases "map_of (userprojectmap self) u'") (simp_all add: user_keys_def project_set_def)
  qed
qed

text \<open>
  Claim C1. \<^verbatim>\<open>check_grant_role_id\<close> raises \<^verbatim>\<open>RoleAssignmentNotFound\<close> exactly when the
  check of the SQL driver raises it for the same arguments and it is not the case that
  the role asked for is the stored role id, the user is a key of the map and the
  project is in that user's set; otherwise it returns \<^verbatim>\<open>None\<close>.
\<close>

theorem check_grant_role_id_raises_iff: "fst (check_grant_role_id sql r u g d p i (self, db)) =
     (if \<not> sql_check_grant_role_id sql r u g d p i db
         \<and> \<not> (r = role_id self \<and> map_grants self u p)
      then Inl RoleAssignmentNotFound else Inr ())"
  using py_lookup_in_iff [of u self p]
  by (auto simp: check_grant_role_id_def split: option.splits)

text \<open>
  Claim C2. \<^verbatim>\<open>list_grant_role_ids\<close> returns the list of the SQL driver for the same
  arguments, with the stored role id appended once at the end when the user is a key of
  the map and the project is in that user's set, and unchanged otherwise.
\<close>

theorem list_grant_role_ids_appends_role: "fst (list_grant_role_ids sql u g d p i (self, db)) =
     sql_list_grant_role_ids sql u g d p i db @ (if map_grants self u p then [role_id self] else [])"
  using py_lookup_in_iff [of u self p]
  by (auto simp: list_grant_role_ids_def Let_def split: option.splits)

text \<open>
  Claim C10. \<^verbatim>\<open>list_grant_role_ids\<close> does not remove duplicates: for a pair of the map,
  when the list of the SQL driver already holds the stored role id, the returned list
  holds it at least twice.
\<close>

theorem list_grant_role_ids_no_dedup: 
  assumes "map_grants self u p" "role_id self \<in> set (sql_list_grant_role_ids sql u g d p i db)"
  shows "2 \<le> count_list (fst (list_grant_role_ids sql u g d p i (self, db))) (role_id self)"
proof -
  have "0 < count_list (sql_list_grant_role_ids sql u g d p i db) (role_id self)"
    using assms(2) count_list_0_iff [of "sql_list_grant_role_ids sql u g d p i db" "role_id self"] by simp
  moreover have "fst (list_grant_role_ids sql u g d p i (self, db)) = sql_list_grant_role_ids sql u g d p i db @ [role_id self]"
    using py_lookup_in_iff [of u self p] assms(1)
    by (auto simp: list_grant_role_ids_def Let_def split: option.splits)
  ultimately show ?thesis by simp
qed

section \<open>Writes and the object\<close>

lemma after_call_self: "fst (after_call sql c st) = fst st"
  by (cases c; cases st)
     (simp_all add: list_grant_role_ids_def check_grant_role_id_def list_role_assignments_def
        add_role_to_user_and_project_def remove_role_from_user_and_project_def create_grant_def
        delete_grant_def delete_project_assignments_def delete_role_assignments_def
        delete_user_assignments_def delete_group_assignments_def delete_domain_assignments_def
        Let_def split: prod.splits option.splits)

lemma after_calls_self: "fst (after_calls sql cs st) = fst st"
  by (induction cs arbitrary: st) (simp_all add: after_call_self)

text \<open>
  Claim C5. The overlay is static: whatever calls are made on the driver after
  construction, reads, writes or deletes, the user-project map and the stored role id
  are afterwards what they were.
\<close>

theorem overlay_unchanged_by_calls:
  "userprojectmap (fst (after_calls sql cs (self, db))) = userprojectmap self
   \<and> role_id (fst (after_calls sql cs (self, db))) = role_id self"
  by (simp add: after_calls_self)

text \<open>
  Claim C4. Each of the nine write methods returns the outcome of the method of the SQL
  driver of the same name, called with the same arguments on the same database, and
  leaves the database as that method leaves it.
\<close>

theorem writes_forward_to_sql:
  "add_role_to_user_and_project sql user_id tenant_id r (self, db) =
     (fst (sql_add_role_to_user_and_project sql user_id tenant_id r db),
      self, snd (sql_add_role_to_user_and_project sql user_id tenant_id r db))
   \<and> remove_role_from_user_and_project sql user_id tenant_id r (self, db) =
     (fst (sql_remove_role_from_user_and_project sql user_id tenant_id r db),
      self, snd (sql_remove_role_from_user_and_project sql user_id tenant_id r db))
   \<and> create_grant sql r u g d p i (self, db) =
     (fst (sql_create_grant sql r u g d p i db), self, snd (sql_create_grant sql r u g d p i db))
   \<and> delete_grant sql r u g d p i (self, db) =
     (fst (sql_delete_grant sql r u g d p i db), self, snd (sql_delete_grant sql r u g d p i db))
   \<and> delete_project_assignments sql x (self, db) =
     (fst (sql_delete_project_assignments sql x db), self,
      snd (sql_delete_project_assignments sql x db))
   \<and> delete_role_assignments sql x (self, db) =
     (fst (sql_delete_role_assignments sql x db), self, snd (sql_delete_role_assignments sql x db))
   \<and> delete_user_assignments sql x (self, db) =
     (fst (sql_delete_user_assignments sql x db), self, snd (sql_delete_user_assignments sql x db))
   \<and> delete_group_assignments sql x (self, db) =
     (fst (sql_delete_group_assignments sql x db), self,
      snd (sql_delete_group_assignments sql x db))
   \<and> delete_domain_assignments sql x (self, db) =
     (fst (sql_delete_domain_assignments sql x db), self,
      snd (sql_delete_domain_assignments sql x db))"
  by (simp add: add_role_to_user_and_project_def remove_role_from_user_and_project_def
      create_grant_def delete_grant_def delete_project_assignments_def
      delete_role_assignments_def delete_user_assignments_def delete_group_assignments_def
      delete_domain_assignments_def split: prod.splits)

section \<open>Construction\<close>

subsection \<open>The loop over the project names\<close>

lemma named_project_ids_Cons:
  "named_project_ids h (n # ns) =
     map_option entity_id (get_project_by_name h n (Some (default_domain_id h)))
       # named_project_ids h ns"
  by (simp add: named_project_ids_def)

lemma cache_ok_update:
  assumes "cache_ok h c" "get_project_by_name h n (Some (default_domain_id h)) = Some project"
  shows "cache_ok h (AList.update n (entity_id project) c)"
  using assms unfolding cache_ok_def by (simp add: update_conv')

lemma init_project_lookup_Inr:
  assumes "cache_ok h c" "init_project_lookup h n c = Inr (pid, c')"
  shows "cache_ok h c'
           \<and> (\<exists>project. get_project_by_name h n (Some (default_domain_id h)) = Some project
                 \<and> pid = Some (entity_id project))"
proof (cases "map_of c n")
  case (Some cached)
  then obtain project where
    "get_project_by_name h n (Some (default_domain_id h)) = Some project"
    "entity_id project = cached"
    using assms(1) unfolding cache_ok_def by blast
  with Some assms show ?thesis
    by (simp add: init_project_lookup_def)
next
  case None
  with assms(2) obtain project where
    project: "get_project_by_name h n (Some (default_domain_id h)) = Some project"
    by (cases "get_project_by_name h n (Some (default_domain_id h))")
       (simp_all add: init_project_lookup_def)
  with None assms(2) have "pid = Some (entity_id project)"
    and "c' = AList.update n (entity_id project) c"
    by (simp_all add: init_project_lookup_def)
  with project cache_ok_update [OF assms(1) project] show ?thesis by simp
qed

lemma init_project_Inr:
  assumes "cache_ok h c" "init_project h n (ids, pid, c) = Inr (ids', pid', c')"
  shows "cache_ok h c'
           \<and> (\<exists>project. get_project_by_name h n (Some (default_domain_id h)) = Some project
                 \<and> fst ` set ids' = fst ` set ids \<union> {p. p \<noteq> [] \<and> p = entity_id project})"
proof -
  from assms(2) have look: "init_project_lookup h n c = Inr (pid', c')"
    and ids': "ids' = (case pid' of None \<Rightarrow> ids
                 | Some p \<Rightarrow> if p \<noteq> [] then AList.update p 1 ids else ids)"
    by (auto split: sum.splits)
  from init_project_lookup_Inr [OF assms(1) look] obtain project where
    c': "cache_ok h c'"
    and project: "get_project_by_name h n (Some (default_domain_id h)) = Some project"
    and pid': "pid' = Some (entity_id project)"
    by blast
  have "fst ` set ids' = fst ` set ids \<union> {p. p \<noteq> [] \<and> p = entity_id project}"
    unfolding ids' pid' by (auto simp: dom_update)
  with c' project show ?thesis by blast
qed

lemma init_projects_inv:
  assumes "cache_ok h c" "init_projects h names (ids, pid, c) = Inr (ids', pid', c')"
  shows "cache_ok h c'
           \<and> None \<notin> set (named_project_ids h names)
           \<and> fst ` set ids' =
               fst ` set ids \<union> {p. p \<noteq> [] \<and> Some p \<in> set (named_project_ids h names)}"
  using assms
proof (induction names arbitrary: ids pid c)
  case Nil
  then show ?case by (simp add: named_project_ids_def)
next
  case (Cons n ns)
  from Cons.prems(2) obtain ids1 pid1 c1 where
    one: "init_project h n (ids, pid, c) = Inr (ids1, pid1, c1)"
    and run: "init_projects h ns (ids1, pid1, c1) = Inr (ids', pid', c')"
    by (cases "init_project h n (ids, pid, c)") auto
  from init_project_Inr [OF Cons.prems(1) one] obtain project where
    c1: "cache_ok h c1"
    and project: "get_project_by_name h n (Some (default_domain_id h)) = Some project"
    and ids1: "fst ` set ids1 = fst ` set ids \<union> {p. p \<noteq> [] \<and> p = entity_id project}"
    by blast
  from Cons.IH [OF c1 run] project ids1 show ?case
    by (auto simp: named_project_ids_Cons)
qed

lemma init_project_distinct:
  assumes "distinct (map fst ids)" "init_project h n (ids, pid, c) = Inr (ids', pid', c')"
  shows "distinct (map fst ids')"
  using assms by (auto simp: distinct_update split: sum.splits option.splits)

lemma init_projects_distinct:
  assumes "distinct (map fst ids)" "init_projects h names (ids, pid, c) = Inr (ids', pid', c')"
  shows "distinct (map fst ids')"
  using assms
proof (induction names arbitrary: ids pid c)
  case Nil
  then show ?case by simp
next
  case (Cons n ns)
  from Cons.prems(2) obtain ids1 pid1 c1 where
    one: "init_project h n (ids, pid, c) = Inr (ids1, pid1, c1)"
    and run: "init_projects h ns (ids1, pid1, c1) = Inr (ids', pid', c')"
    by (cases "init_project h n (ids, pid, c)") auto
  from init_project_distinct [OF Cons.prems(1) one] have "distinct (map fst ids1)" .
  from Cons.IH [OF this run] show ?case .
qed

subsection \<open>The loop over the file\<close>

lemma get_user_id_same:
  "domain_name s = domain_name s' \<Longrightarrow> domain_id s = domain_id s' \<Longrightarrow>
     get_user_id h s n = get_user_id h s' n"
  by (simp add: get_user_id_def split: option.splits)

lemma init_user_cases:
  assumes "init_user h (user, project) (self, c) = Inr v'"
  obtains (skip) "v' = (self, c)"
      "get_user_id h self user = None \<or> get_user_id h self user = Some []"
    | (store) user_id ids pid c' where "get_user_id h self user = Some user_id" "user_id \<noteq> []"
      "init_projects h project ([], None, c) = Inr (ids, pid, c')"
      "v' = (self\<lparr>userprojectmap := AList.update user_id ids (userprojectmap self)\<rparr>, c')"
  using assms by (auto split: option.splits if_splits sum.splits)

lemma init_user_fields:
  assumes "init_user h item v = Inr v'"
  shows "domain_name (fst v') = domain_name (fst v)
         \<and> domain_id (fst v') = domain_id (fst v)
         \<and> role_id (fst v') = role_id (fst v)"
proof -
  obtain user project where item: "item = (user, project)" by (cases item)
  obtain self c where v: "v = (self, c)" by (cases v)
  from assms show ?thesis
    unfolding item v by (cases rule: init_user_cases) simp_all
qed

lemma init_users_fields:
  assumes "init_users h items v = Inr v'"
  shows "domain_name (fst v') = domain_name (fst v)
         \<and> domain_id (fst v') = domain_id (fst v)
         \<and> role_id (fst v') = role_id (fst v)"
  using assms
proof (induction items arbitrary: v)
  case Nil
  then show ?case by simp
next
  case (Cons item rest)
  from Cons.prems obtain v1 where one: "init_user h item v = Inr v1"
    and run: "init_users h rest v1 = Inr v'"
    by (cases "init_user h item v") auto
  from Cons.IH [OF run] init_user_fields [OF one] show ?case by simp
qed

lemma init_users_same_domain:
  assumes "init_users h items v = Inr v'"
  shows "get_user_id h (fst v') = get_user_id h (fst v)"
  using init_users_fields [OF assms] by (intro ext get_user_id_same) simp_all

lemma init_users_append:
  "init_users h (xs @ ys) v =
     (case init_users h xs v of Inl e \<Rightarrow> Inl e | Inr v1 \<Rightarrow> init_users h ys v1)"
  by (induction xs arbitrary: v) (simp_all split: sum.splits)

lemma init_user_cache:
  assumes "cache_ok h (snd v)" "init_user h item v = Inr v'"
  shows "cache_ok h (snd v')"
proof -
  obtain user project where item: "item = (user, project)" by (cases item)
  obtain self c where v: "v = (self, c)" by (cases v)
  from assms(2) show ?thesis
    unfolding item v
  proof (cases rule: init_user_cases)
    case skip
    with assms(1) show ?thesis by (simp add: v)
  next
    case (store user_id ids pid c')
    from assms(1) have "cache_ok h c" by (simp add: v)
    from init_projects_inv [OF this store(3)] store(4) show ?thesis by simp
  qed
qed

lemma init_users_cache:
  assumes "cache_ok h (snd v)" "init_users h items v = Inr v'"
  shows "cache_ok h (snd v')"
  using assms
proof (induction items arbitrary: v)
  case Nil
  then show ?case by simp
next
  case (Cons item rest)
  from Cons.prems(2) obtain v1 where one: "init_user h item v = Inr v1"
    and run: "init_users h rest v1 = Inr v'"
    by (cases "init_user h item v") auto
  from Cons.IH [OF init_user_cache [OF Cons.prems(1) one] run] show ?case .
qed

lemma init_user_keep:
  assumes "get_user_id h (fst v) (fst item) \<noteq> Some uid" "init_user h item v = Inr v'"
  shows "map_of (userprojectmap (fst v')) uid = map_of (userprojectmap (fst v)) uid"
proof -
  obtain user project where item: "item = (user, project)" by (cases item)
  obtain self c where v: "v = (self, c)" by (cases v)
  from assms(2) have run: "init_user h (user, project) (self, c) = Inr v'"
    by (simp add: item v)
  from assms(1) have other: "get_user_id h self user \<noteq> Some uid"
    by (simp add: item v)
  from run have "map_of (userprojectmap (fst v')) uid = map_of (userprojectmap self) uid"
  proof (cases rule: init_user_cases)
    case skip
    then show ?thesis by simp
  next
    case (store user_id ids pid c')
    with other have "user_id \<noteq> uid" by simp
    with store(4) show ?thesis by (simp add: update_conv')
  qed
  then show ?thesis by (simp add: v)
qed

lemma init_users_keep:
  assumes "list_all (\<lambda>item. get_user_id h (fst v) (fst item) \<noteq> Some uid) ys"
    and "init_users h ys v = Inr v'"
  shows "map_of (userprojectmap (fst v')) uid = map_of (userprojectmap (fst v)) uid"
  using assms
proof (induction ys arbitrary: v)
  case Nil
  then show ?case by simp
next
  case (Cons item rest)
  from Cons.prems(2) obtain v1 where one: "init_user h item v = Inr v1"
    and run: "init_users h rest v1 = Inr v'"
    by (cases "init_user h item v") auto
  have same: "get_user_id h (fst v1) = get_user_id h (fst v)"
    using init_user_fields [OF one] by (intro ext get_user_id_same) simp_all
  have rest: "list_all (\<lambda>item. get_user_id h (fst v1) (fst item) \<noteq> Some uid) rest"
    using Cons.prems(1) unfolding same by simp
  have "get_user_id h (fst v) (fst item) \<noteq> Some uid"
    using Cons.prems(1) by simp
  from Cons.IH [OF rest run] init_user_keep [OF this one] show ?case by simp
qed

lemma init_user_set:
  assumes "cache_ok h c" "get_user_id h self user = Some uid" "uid \<noteq> []"
    and "init_user h (user, project) (self, c) = Inr v'"
  shows "None \<notin> set (named_project_ids h project)
         \<and> (\<exists>ids. map_of (userprojectmap (fst v')) uid = Some ids
               \<and> fst ` set ids = {p. p \<noteq> [] \<and> Some p \<in> set (named_project_ids h project)})"
  using assms(4)
proof (cases rule: init_user_cases)
  case skip
  with assms(2,3) show ?thesis by simp
next
  case (store user_id ids pid c')
  with assms(2) have "user_id = uid" by simp
  with init_projects_inv [OF assms(1) store(3)] store(4) show ?thesis
    by (simp add: update_conv')
qed

lemma wf_map_update:
  assumes "wf_map m" "distinct (map fst ps)"
  shows "wf_map (AList.update u ps m)"
  using assms unfolding wf_map_def
proof (induction m)
  case Nil
  then show ?case by simp
next
  case (Cons e m)
  then show ?case by (cases e) (auto simp: dom_update)
qed

lemma init_user_wf:
  assumes "wf_map (userprojectmap (fst v))" "init_user h item v = Inr v'"
  shows "wf_map (userprojectmap (fst v'))"
proof -
  obtain user project where item: "item = (user, project)" by (cases item)
  obtain self c where v: "v = (self, c)" by (cases v)
  from assms(2) show ?thesis
    unfolding item v
  proof (cases rule: init_user_cases)
    case skip
    with assms(1) show ?thesis by (simp add: v)
  next
    case (store user_id ids pid c')
    have "distinct (map fst ids)"
      using init_projects_distinct [OF _ store(3)] by simp
    with assms(1) store(4) show ?thesis by (simp add: v wf_map_update)
  qed
qed

lemma init_users_wf:
  assumes "wf_map (userprojectmap (fst v))" "init_users h items v = Inr v'"
  shows "wf_map (userprojectmap (fst v'))"
  using assms
proof (induction items arbitrary: v)
  case Nil
  then show ?case by simp
next
  case (Cons item rest)
  from Cons.prems(2) obtain v1 where one: "init_user h item v = Inr v1"
    and run: "init_users h rest v1 = Inr v'"
    by (cases "init_user h item v") auto
  from Cons.IH [OF init_user_wf [OF Cons.prems(1) one] run] show ?case .
qed

lemma init_user_keys:
  assumes "init_user h item v = Inr v'" "k \<in> fst ` set (userprojectmap (fst v'))"
  shows "k \<in> fst ` set (userprojectmap (fst v)) \<or> get_user_id h (fst v) (fst item) = Some k"
proof -
  obtain user project where item: "item = (user, project)" by (cases item)
  obtain self c where v: "v = (self, c)" by (cases v)
  from assms(1) have run: "init_user h (user, project) (self, c) = Inr v'"
    by (simp add: item v)
  from run have "k \<in> fst ` set (userprojectmap self) \<or> get_user_id h self user = Some k"
  proof (cases rule: init_user_cases)
    case skip
    with assms(2) show ?thesis by simp
  next
    case (store user_id ids pid c')
    with assms(2) have "k \<in> fst ` set (AList.update user_id ids (userprojectmap self))"
      by simp
    then have "k = user_id \<or> k \<in> fst ` set (userprojectmap self)"
      unfolding dom_update by blast
    with store(1) show ?thesis by auto
  qed
  then show ?thesis by (simp add: item v)
qed

lemma init_users_keys:
  assumes "init_users h items v = Inr v'" "k \<in> fst ` set (userprojectmap (fst v'))"
  shows "k \<in> fst ` set (userprojectmap (fst v))
           \<or> (\<exists>n \<in> fst ` set items. get_user_id h (fst v) n = Some k)"
  using assms
proof (induction items arbitrary: v)
  case Nil
  then show ?case by simp
next
  case (Cons item rest)
  from Cons.prems(1) obtain v1 where one: "init_user h item v = Inr v1"
    and run: "init_users h rest v1 = Inr v'"
    by (cases "init_user h item v") auto
  have same: "get_user_id h (fst v1) = get_user_id h (fst v)"
    using init_user_fields [OF one] by (intro ext get_user_id_same) simp_all
  from Cons.IH [OF run Cons.prems(2)]
  have "k \<in> fst ` set (userprojectmap (fst v1))
          \<or> (\<exists>n \<in> fst ` set rest. get_user_id h (fst v) n = Some k)"
    unfolding same .
  then show ?case
  proof
    assume "k \<in> fst ` set (userprojectmap (fst v1))"
    from init_user_keys [OF one this] show ?thesis by auto
  next
    assume "\<exists>n \<in> fst ` set rest. get_user_id h (fst v) n = Some k"
    then show ?thesis by auto
  qed
qed

subsection \<open>The constructor\<close>

lemma init_unfold:
  assumes "init h items = Inr self"
  shows "\<exists>domain r c. get_project_by_name h (ldap_domain_name h) None = Some domain
           \<and> get_role_id h = Inr r
           \<and> init_users h items
                 (\<lparr>domain_name = ldap_domain_name h, domain_id = entity_id domain,
                   role_id = r, userprojectmap = []\<rparr>, []) = Inr (self, c)"
  using assms by (auto simp: init_def split: option.splits sum.splits)

lemma init_start:
  assumes "init h items = Inr self"
  obtains s0 c where "init_users h items (s0, []) = Inr (self, c)"
    "domain_name s0 = ldap_domain_name h" "userprojectmap s0 = []"
    "get_role_id h = Inr (role_id s0)"
proof -
  from init_unfold [OF assms] obtain domain :: entity and r c where
    r: "get_role_id h = Inr r"
    and run: "init_users h items
                 (\<lparr>domain_name = ldap_domain_name h, domain_id = entity_id domain,
                   role_id = r, userprojectmap = []\<rparr>, []) = Inr (self, c)"
    by blast
  show thesis
    by (rule that [OF run]) (simp_all add: r)
qed

lemma init_wf:
  assumes "init h items = Inr self"
  shows "wf_map (userprojectmap self)"
proof -
  from assms obtain s0 c where run: "init_users h items (s0, []) = Inr (self, c)"
    and empty: "userprojectmap s0 = []"
    by (rule init_start)
  have "wf_map (userprojectmap (fst (s0, [])))"
    by (simp add: empty wf_map_def)
  from init_users_wf [OF this run] show ?thesis by simp
qed

lemma init_role_id:
  assumes "init h items = Inr self"
  shows "get_role_id h = Inr (role_id self)"
proof -
  from assms obtain s0 c where run: "init_users h items (s0, []) = Inr (self, c)"
    and r: "get_role_id h = Inr (role_id s0)"
    by (rule init_start)
  from init_users_fields [OF run] r show ?thesis by simp
qed

lemma init_domain_name:
  assumes "init h items = Inr self"
  shows "domain_name self = ldap_domain_name h"
proof -
  from assms obtain s0 c where run: "init_users h items (s0, []) = Inr (self, c)"
    and d: "domain_name s0 = ldap_domain_name h"
    by (rule init_start)
  from init_users_fields [OF run] d show ?thesis by simp
qed

lemma init_keys:
  assumes "init h items = Inr self" "k \<in> user_keys self"
  shows "\<exists>n \<in> fst ` set items. get_user_id h self n = Some k"
proof -
  from assms(1) obtain s0 c where run: "init_users h items (s0, []) = Inr (self, c)"
    and empty: "userprojectmap s0 = []"
    by (rule init_start)
  have same: "get_user_id h self = get_user_id h s0"
    using init_users_same_domain [OF run] by simp
  from assms(2) have "k \<in> fst ` set (userprojectmap (fst (self, c)))"
    by (simp add: user_keys_def)
  from init_users_keys [OF run this] show ?thesis
    by (simp add: empty same)
qed

lemma init_last_key_project_set:
  assumes "init h (xs @ (user, project) # ys) = Inr self"
    and "get_user_id h self user = Some user_id"
    and "user_id \<noteq> []"
    and "list_all (\<lambda>item. get_user_id h self (fst item) \<noteq> Some user_id) ys"
  shows "None \<notin> set (named_project_ids h project)
         \<and> (\<exists>ids. map_of (userprojectmap self) user_id = Some ids
               \<and> fst ` set ids = {p. p \<noteq> [] \<and> Some p \<in> set (named_project_ids h project)})"
proof -
  from assms(1) obtain s0 c where
    run: "init_users h (xs @ (user, project) # ys) (s0, []) = Inr (self, c)"
    by (rule init_start)
  from run obtain v1 where v1: "init_users h xs (s0, []) = Inr v1"
    and run1: "init_users h ((user, project) # ys) v1 = Inr (self, c)"
    unfolding init_users_append by (cases "init_users h xs (s0, [])") auto
  from run1 obtain v2 where v2: "init_user h (user, project) v1 = Inr v2"
    and run2: "init_users h ys v2 = Inr (self, c)"
    by (cases "init_user h (user, project) v1") auto
  obtain s1 c1 where sc1: "v1 = (s1, c1)" by (cases v1)
  have dom2: "get_user_id h self = get_user_id h (fst v2)"
    using init_users_same_domain [OF run2] by simp
  have dom1: "get_user_id h self = get_user_id h s1"
    using init_users_same_domain [OF run1] by (simp add: sc1)
  have c1: "cache_ok h c1"
    using init_users_cache [OF _ v1] by (simp add: sc1 cache_ok_def)
  from assms(2) have u: "get_user_id h s1 user = Some user_id"
    unfolding dom1 .
  from init_user_set [OF c1 u assms(3) v2 [unfolded sc1]] obtain ids where
    none: "None \<notin> set (named_project_ids h project)"
    and ids: "map_of (userprojectmap (fst v2)) user_id = Some ids"
      "fst ` set ids = {p. p \<noteq> [] \<and> Some p \<in> set (named_project_ids h project)}"
    by blast
  have "list_all (\<lambda>item. get_user_id h (fst v2) (fst item) \<noteq> Some user_id) ys"
    using assms(4) unfolding dom2 .
  from init_users_keep [OF this run2] ids(1)
  have "map_of (userprojectmap self) user_id = Some ids" by simp
  with none ids(2) show ?thesis by blast
qed

text \<open>
  Claim C6, amended. For every key of the file that resolves to a user with a non-empty
  public id, whose listed project names all resolve, and after which the loop of the
  constructor visits no key that resolves to the same public id, the constructed map
  associates that public id with exactly the set of the non-empty project ids obtained
  by resolving the project names listed under the key.
\<close>

theorem init_resolves_names:
  assumes "init h (xs @ (user, project) # ys) = Inr self"
    and "get_user_id h self user = Some user_id"
    and "user_id \<noteq> []"
    and "\<forall>n \<in> fst ` set ys. get_user_id h self n \<noteq> Some user_id"
    and "\<forall>projectname \<in> set project.
           get_project_by_name h projectname (Some (default_domain_id h)) \<noteq> None"
  shows "user_id \<in> user_keys self
         \<and> Some ` project_set self user_id = set (named_project_ids h project) - {Some []}"
proof -
  have "list_all (\<lambda>item. get_user_id h self (fst item) \<noteq> Some user_id) ys"
    using assms(4) by (auto simp: list_all_iff)
  from init_last_key_project_set [OF assms(1,2,3) this] obtain ids where
    none: "None \<notin> set (named_project_ids h project)"
    and ids: "map_of (userprojectmap self) user_id = Some ids"
      "fst ` set ids = {p. p \<noteq> [] \<and> Some p \<in> set (named_project_ids h project)}"
    by blast
  from ids(1) have "(user_id, ids) \<in> set (userprojectmap self)" by (rule map_of_SomeD)
  then have key: "user_id \<in> user_keys self" by (force simp: user_keys_def)
  have "project_set self user_id
          = {p. p \<noteq> [] \<and> Some p \<in> set (named_project_ids h project)}"
    using ids by (simp add: project_set_def)
  then have "Some ` project_set self user_id
          = set (named_project_ids h project) - {Some []}"
    using none by (auto simp: image_iff) (metis option.exhaust)
  with key show ?thesis by simp
qed

text \<open>
  Claim C8. A key of the file whose lookup raises \<^verbatim>\<open>UserNotFound\<close> is skipped:
  construction gives what it gives on the file without that key, and every key of the
  constructed map is the public id found for another key of the file. The read methods
  take their synthetic grants from the map alone, so none is made for the skipped key.
\<close>

theorem init_skips_unknown_user:
  assumes "get_user_by_name h user (ldap_domain_name h) = None"
  shows "init h (xs @ (user, project) # ys) = init h (xs @ ys)
         \<and> (init h (xs @ (user, project) # ys) = Inr self \<and> k \<in> user_keys self
              \<longrightarrow> (\<exists>n \<in> fst ` set (xs @ ys). n \<noteq> user \<and> get_user_id h self n = Some k))"
proof -
  have skip: "init_users h (xs @ (user, project) # ys) (s0, []) = init_users h (xs @ ys) (s0, [])"
    if d: "domain_name s0 = ldap_domain_name h" for s0
  proof (cases "init_users h xs (s0, [])")
    case (Inl e)
    then show ?thesis by (simp add: init_users_append)
  next
    case (Inr v1)
    obtain s1 c1 where sc1: "v1 = (s1, c1)" by (cases v1)
    have "domain_name s1 = ldap_domain_name h"
      using init_users_fields [OF Inr] d by (simp add: sc1)
    then have "get_user_id h s1 user = None"
      using assms by (simp add: get_user_id_def)
    then have "init_user h (user, project) v1 = Inr v1"
      by (simp add: sc1)
    with Inr show ?thesis by (simp add: init_users_append)
  qed
  have eq: "init h (xs @ (user, project) # ys) = init h (xs @ ys)"
    by (simp add: init_def skip split: option.splits sum.splits)
  have "\<exists>n \<in> fst ` set (xs @ ys). n \<noteq> user \<and> get_user_id h self n = Some k"
    if run: "init h (xs @ (user, project) # ys) = Inr self" and k: "k \<in> user_keys self"
  proof -
    from run eq have run': "init h (xs @ ys) = Inr self" by simp
    from init_keys [OF run' k] obtain n where
      n: "n \<in> fst ` set (xs @ ys)" "get_user_id h self n = Some k"
      by blast
    have "get_user_id h self user = None"
      using assms init_domain_name [OF run] by (simp add: get_user_id_def)
    with n(2) have "n \<noteq> user" by auto
    with n show ?thesis by blast
  qed
  with eq show ?thesis by blast
qed

section \<open>The list of role assignments\<close>

lemma append_projects_eq:
  "append_projects r u ps acc = acc @ map (\<lambda>(p, v). synthetic_assignment r u p) ps"
  by (induction ps arbitrary: acc) (auto simp: synthetic_assignment_def)

lemma append_users_eq:
  "append_users r m acc = acc @ map (\<lambda>(u, p). synthetic_assignment r u p) (map_pairs m)"
proof (induction m arbitrary: acc)
  case Nil
  then show ?case by (simp add: map_pairs_def)
next
  case (Cons e m)
  obtain u ps where e: "e = (u, ps)" by (cases e)
  have "map (\<lambda>(u, p). synthetic_assignment r u p) (map_pairs (e # m))
          = map (\<lambda>(p, v). synthetic_assignment r u p) ps
            @ map (\<lambda>(u, p). synthetic_assignment r u p) (map_pairs m)"
    by (simp add: e map_pairs_def comp_def case_prod_unfold)
  with Cons.IH show ?case by (simp add: e append_projects_eq)
qed

lemma list_role_assignments_eq:
  "fst (list_role_assignments sql r u gs d ps i (self, db)) =
     sql_list_role_assignments sql r u gs d ps i db
       @ map (\<lambda>(u, p). synthetic_assignment (role_id self) u p) (map_pairs (userprojectmap self))"
  by (simp add: list_role_assignments_def append_users_eq)

lemma set_map_pairs:
  "set (map_pairs m) = {(u, p). \<exists>ps. (u, ps) \<in> set m \<and> p \<in> fst ` set ps}"
  by (force simp: map_pairs_def)

lemma map_pairs_member:
  assumes "u \<in> user_keys self" "p \<in> project_set self u"
  shows "(u, p) \<in> set (map_pairs (userprojectmap self))"
proof -
  from assms(2) obtain ps where ps: "map_of (userprojectmap self) u = Some ps" "p \<in> fst ` set ps"
    by (auto simp: project_set_def split: option.splits)
  from ps(1) have "(u, ps) \<in> set (userprojectmap self)" by (rule map_of_SomeD)
  with ps(2) show ?thesis unfolding set_map_pairs by blast
qed

lemma set_map_pairs_wf:
  assumes "wf_map (userprojectmap self)"
  shows "set (map_pairs (userprojectmap self))
           = {(u, p). u \<in> user_keys self \<and> p \<in> project_set self u}"
proof -
  have d: "distinct (map fst (userprojectmap self))"
    using assms by (simp add: wf_map_def)
  have "(u, p) \<in> set (map_pairs (userprojectmap self))
          \<longleftrightarrow> u \<in> user_keys self \<and> p \<in> project_set self u" for u p
  proof
    assume "(u, p) \<in> set (map_pairs (userprojectmap self))"
    then obtain ps where ps: "(u, ps) \<in> set (userprojectmap self)" "p \<in> fst ` set ps"
      unfolding set_map_pairs by blast
    from ps(1) d have "map_of (userprojectmap self) u = Some ps" by simp
    with ps(2) have "p \<in> project_set self u" by (simp add: project_set_def)
    moreover from ps(1) have "u \<in> user_keys self" by (force simp: user_keys_def)
    ultimately show "u \<in> user_keys self \<and> p \<in> project_set self u" by simp
  next
    assume "u \<in> user_keys self \<and> p \<in> project_set self u"
    then show "(u, p) \<in> set (map_pairs (userprojectmap self))"
      by (simp add: map_pairs_member)
  qed
  then show ?thesis by auto
qed

lemma distinct_map_pairs:
  assumes "wf_map m"
  shows "distinct (map_pairs m)"
  using assms
proof (induction m)
  case Nil
  then show ?case by (simp add: map_pairs_def)
next
  case (Cons e m)
  obtain u ps where e: "e = (u, ps)" by (cases e)
  have tl: "wf_map m" and u: "u \<notin> fst ` set m" and ps: "distinct (map fst ps)"
    using Cons.prems by (simp_all add: wf_map_def e)
  have split: "map_pairs (e # m) = map (\<lambda>(p, v). (u, p)) ps @ map_pairs m"
    by (simp add: map_pairs_def e)
  have "map (\<lambda>(p, v). (u, p)) ps = map (Pair u) (map fst ps)"
    by (simp add: case_prod_unfold)
  then have one: "distinct (map (\<lambda>(p, v). (u, p)) ps)"
    using ps by (simp add: distinct_map inj_on_def del: map_map)
  have disj: "set (map (\<lambda>(p, v). (u, p)) ps) \<inter> set (map_pairs m) = {}"
    using u unfolding set_map_pairs by force
  from one disj Cons.IH [OF tl] show ?case unfolding split by simp
qed

lemma inj_synthetic_assignment:
  "inj (\<lambda>(u, p). synthetic_assignment r u p)"
  by (auto simp: inj_on_def synthetic_assignment_def)

text \<open>
  Claim C3. \<^verbatim>\<open>list_role_assignments\<close> returns the list of the SQL driver for the same
  arguments, every entry kept, followed by the synthetic assignments: one for each pair
  of a user that is a key of the constructed map and a project in that user's set, made
  of the stored role id, the user and the project.
\<close>

theorem list_role_assignments_appends_pairs:
  assumes "init h items = Inr self0" "after_calls sql cs (self0, db0) = (self, db)"
  shows "\<exists>synthetic.
           fst (list_role_assignments sql r u gs d ps i (self, db))
             = sql_list_role_assignments sql r u gs d ps i db @ synthetic
           \<and> distinct synthetic
           \<and> set synthetic = {synthetic_assignment (role_id self) u' p' | u' p'.
                 u' \<in> user_keys self \<and> p' \<in> project_set self u'}"
proof -
  have "self = self0"
    using after_calls_self [of sql cs "(self0, db0)"] assms(2) by simp
  with init_wf [OF assms(1)] have wf: "wf_map (userprojectmap self)" by simp
  let ?f = "\<lambda>(u, p). synthetic_assignment (role_id self) u p"
  let ?synthetic = "map ?f (map_pairs (userprojectmap self))"
  have "distinct ?synthetic"
    using distinct_map_pairs [OF wf]
      inj_on_subset [OF inj_synthetic_assignment [of "role_id self"] subset_UNIV]
    by (simp add: distinct_map)
  moreover have "set ?synthetic = {synthetic_assignment (role_id self) u' p' | u' p'.
                 u' \<in> user_keys self \<and> p' \<in> project_set self u'}"
    unfolding set_map set_map_pairs_wf [OF wf] by auto
  ultimately show ?thesis
    using list_role_assignments_eq [of sql r u gs d ps i self db] by blast
qed

text \<open>
  Claim C9. The synthetic entries of \<^verbatim>\<open>list_role_assignments\<close> ignore the filters: the
  entry of every pair of the map is in the appended part whatever filters are given,
  and the appended part is the one of the call without filters.
\<close>

theorem list_role_assignments_ignores_filters:
  assumes "u' \<in> user_keys self" "p' \<in> project_set self u'"
  shows "synthetic_assignment (role_id self) u' p'
           \<in> set (drop (length (sql_list_role_assignments sql r u gs d ps i db))
                 (fst (list_role_assignments sql r u gs d ps i (self, db))))
         \<and> drop (length (sql_list_role_assignments sql r u gs d ps i db))
                 (fst (list_role_assignments sql r u gs d ps i (self, db)))
           = drop (length (sql_list_role_assignments sql None None None None None None db))
                 (fst (list_role_assignments sql None None None None None None (self, db)))"
  using map_pairs_member [OF assms]
  by (force simp: list_role_assignments_eq)

section \<open>The granted role\<close>

lemma get_role_id_Inr:
  assumes "get_role_id h = Inr r"
  shows "\<exists>role_name names role roles. default_roles h = role_name # names
           \<and> list_roles h role_name = role # roles \<and> r = entity_id role"
  using assms by (auto simp: get_role_id_def split: list.splits)

text \<open>
  Claim C7. One role is granted: the stored role id is the id of the first role that
  the role manager lists under the first configured default role name, it is still that
  after any calls, and every synthetic grant of a read method carries it: the role
  that \<^verbatim>\<open>list_grant_role_ids\<close> appends, the \<^verbatim>\<open>role_id\<close> of every entry that
  \<^verbatim>\<open>list_role_assignments\<close> appends, and the only role for which
  \<^verbatim>\<open>check_grant_role_id\<close> returns where the SQL check raises.
\<close>

theorem single_role_granted:
  assumes "init h items = Inr self0" "after_calls sql cs (self0, db0) = (self, db)"
  shows "\<exists>role_name names role roles.
           default_roles h = role_name # names
           \<and> list_roles h role_name = role # roles
           \<and> role_id self = entity_id role
           \<and> fst (list_grant_role_ids sql u g d p i (self, db))
               \<in> {sql_list_grant_role_ids sql u g d p i db,
                  sql_list_grant_role_ids sql u g d p i db @ [entity_id role]}
           \<and> (\<forall>a \<in> set (drop (length (sql_list_role_assignments sql fr fu fgs fd fps fi db))
                        (fst (list_role_assignments sql fr fu fgs fd fps fi (self, db)))).
                 map_of a ''role_id'' = Some (entity_id role))
           \<and> (\<not> sql_check_grant_role_id sql r u g d p i db
                \<and> fst (check_grant_role_id sql r u g d p i (self, db)) = Inr ()
                \<longrightarrow> r = entity_id role)"
proof -
  have "self = self0"
    using after_calls_self [of sql cs "(self0, db0)"] assms(2) by simp
  with init_role_id [OF assms(1)] have "get_role_id h = Inr (role_id self)" by simp
  from get_role_id_Inr [OF this] obtain role_name names role roles where
    role: "default_roles h = role_name # names" "list_roles h role_name = role # roles"
      "role_id self = entity_id role"
    by blast
  have grants: "fst (list_grant_role_ids sql u g d p i (self, db))
               \<in> {sql_list_grant_role_ids sql u g d p i db,
                  sql_list_grant_role_ids sql u g d p i db @ [role_id self]}"
    by (simp add: list_grant_role_ids_def Let_def split: option.splits)
  have assignments: "\<forall>a \<in> set (drop (length (sql_list_role_assignments sql fr fu fgs fd fps fi db))
                        (fst (list_role_assignments sql fr fu fgs fd fps fi (self, db)))).
                 map_of a ''role_id'' = Some (role_id self)"
    by (auto simp: list_role_assignments_eq synthetic_assignment_def)
  have check: "\<not> sql_check_grant_role_id sql r u g d p i db
                \<and> fst (check_grant_role_id sql r u g d p i (self, db)) = Inr ()
                \<longrightarrow> r = role_id self"
    by (auto simp: check_grant_role_id_def split: option.splits if_splits)
  from role grants assignments check show ?thesis by simp
qed

section \<open>The example deployment, evaluated\<close>

lemmas example_defs = example_host_def example_sql_def example_self_def example_items_def
  example_db_def example_calls_def alias_items_def alias_self_def

lemma init_example: "init example_host example_items = Inr example_self"
  by (simp add: init_def example_defs get_role_id_def get_user_id_def init_project_lookup_def)

text \<open>
  A project name that the resource manager does not know ends construction with the
  \<^verbatim>\<open>AttributeError\<close> of the handler.
\<close>

lemma init_unknown_project:
  "init example_host [(''alice'', [''p1'', ''nope'', ''p2''])] = Inl AttributeError"
  by (simp add: init_def example_host_def get_role_id_def get_user_id_def
      init_project_lookup_def)

lemma after_example_calls:
  "after_calls example_sql example_calls (example_self, example_db)
     = (example_self, [(''carol'', ''P9'', ''r-admin''), (''pub-bob'', ''P1'', ''r-admin'')])"
  by (simp add: example_calls_def example_sql_def example_db_def example_self_def list_grant_role_ids_def check_grant_role_id_def
      delete_user_assignments_def delete_project_assignments_def delete_role_assignments_def
      add_role_to_user_and_project_def Let_def split: option.splits)

text \<open>
  The four cases on the example: a grant of the map only, a project outside the map,
  a role other than the stored one, and a grant of the database.
\<close>

theorem check_grant_role_id_raises_iff_witness: "fst (check_grant_role_id example_sql ''r-member'' (Some ''pub-bob'') None None (Some ''P2'') False (example_self, example_db)) = Inr ()
  \<and> fst (check_grant_role_id example_sql ''r-member'' (Some ''pub-bob'') None None (Some ''P1'') False (example_self, example_db)) = Inl RoleAssignmentNotFound
  \<and> fst (check_grant_role_id example_sql ''r-admin'' (Some ''pub-bob'') None None (Some ''P2'') False (example_self, example_db)) = Inl RoleAssignmentNotFound
  \<and> fst (check_grant_role_id example_sql ''r-admin'' (Some ''carol'') None None (Some ''P9'') False (example_self, example_db)) = Inr ()"
  using check_grant_role_id_raises_iff [of example_sql "''r-member''" "Some ''pub-bob''" None None "Some ''P2''" False example_self example_db]
    check_grant_role_id_raises_iff [of example_sql "''r-member''" "Some ''pub-bob''" None None "Some ''P1''" False example_self example_db]
    check_grant_role_id_raises_iff [of example_sql "''r-admin''" "Some ''pub-bob''" None None "Some ''P2''" False example_self example_db]
    check_grant_role_id_raises_iff [of example_sql "''r-admin''" "Some ''carol''" None None "Some ''P9''" False example_self example_db]
  by (simp add: example_defs user_keys_def project_set_def)

text \<open>
  On the example: a pair of the map gets the role appended, a pair outside it does not.
\<close>

theorem list_grant_role_ids_appends_role_witness: "fst (list_grant_role_ids example_sql (Some ''pub-alice'') None None (Some ''P1'') False (example_self, example_db)) = [''r-member'', ''r-member'']
  \<and> fst (list_grant_role_ids example_sql (Some ''carol'') None None (Some ''P9'') False (example_self, example_db)) = [''r-admin'']"
  using list_grant_role_ids_appends_role [of example_sql "Some ''pub-alice''" None None "Some ''P1''" False example_self example_db]
    list_grant_role_ids_appends_role [of example_sql "Some ''carol''" None None "Some ''P9''" False example_self example_db]
  by (simp add: example_defs user_keys_def project_set_def)

text \<open>
  On the example the database grants \<open>r-member\<close> to \<open>pub-alice\<close> on \<open>P1\<close>, and so does
  the map.
\<close>

theorem list_grant_role_ids_no_dedup_witness: "map_grants example_self (Some ''pub-alice'') (Some ''P1'')
  \<and> role_id example_self \<in> set (sql_list_grant_role_ids example_sql (Some ''pub-alice'') None None (Some ''P1'') False example_db)
  \<and> 2 \<le> count_list (fst (list_grant_role_ids example_sql (Some ''pub-alice'') None None (Some ''P1'') False (example_self, example_db))) (role_id example_self)"
proof -
  have a: "map_grants example_self (Some ''pub-alice'') (Some ''P1'')"
    by (simp add: example_defs user_keys_def project_set_def)
  have b: "role_id example_self \<in> set (sql_list_grant_role_ids example_sql (Some ''pub-alice'') None None (Some ''P1'') False example_db)"
    by (simp add: example_defs)
  from a b list_grant_role_ids_no_dedup [OF a b] show ?thesis by simp
qed

text \<open>
  On the example, after the example calls.
\<close>

theorem list_role_assignments_appends_pairs_witness: "init example_host example_items = Inr example_self
  \<and> after_calls example_sql example_calls (example_self, example_db)
     = (example_self, [(''carol'', ''P9'', ''r-admin''), (''pub-bob'', ''P1'', ''r-admin'')])
  \<and> (\<exists>synthetic.
           fst (list_role_assignments example_sql None None None None None None (example_self, [(''carol'', ''P9'', ''r-admin''), (''pub-bob'', ''P1'', ''r-admin'')]))
             = sql_list_role_assignments example_sql None None None None None None [(''carol'', ''P9'', ''r-admin''), (''pub-bob'', ''P1'', ''r-admin'')] @ synthetic
           \<and> distinct synthetic
           \<and> set synthetic = {synthetic_assignment (role_id example_self) u' p' | u' p'.
                 u' \<in> user_keys example_self \<and> p' \<in> project_set example_self u'})"
  using init_example after_example_calls list_role_assignments_appends_pairs [OF init_example after_example_calls, of None None None None None None]
  by simp

text \<open>
  On the example, filters for another role, another user and another project still give
  the entry of \<open>pub-bob\<close> on \<open>P2\<close>.
\<close>

theorem list_role_assignments_ignores_filters_witness: "''pub-bob'' \<in> user_keys example_self \<and> ''P2'' \<in> project_set example_self ''pub-bob''
  \<and> synthetic_assignment ''r-member'' ''pub-bob'' ''P2''
       \<in> set (fst (list_role_assignments example_sql (Some ''r-admin'') (Some ''carol'') None None (Some [''P9'']) None (example_self, example_db)))"
proof -
  have a: "''pub-bob'' \<in> user_keys example_self" by (simp add: example_defs user_keys_def)
  have b: "''P2'' \<in> project_set example_self ''pub-bob''" by (simp add: example_defs project_set_def)
  have r: "role_id example_self = ''r-member''" by (simp add: example_self_def)
  from list_role_assignments_ignores_filters [OF a b, of example_sql "Some ''r-admin''" "Some ''carol''" None None "Some [''P9'']" None example_db]
  have "synthetic_assignment ''r-member'' ''pub-bob'' ''P2''
       \<in> set (fst (list_role_assignments example_sql (Some ''r-admin'') (Some ''carol'') None None (Some [''P9'']) None (example_self, example_db)))"
    unfolding r by (blast dest: in_set_dropD)
  with a b show ?thesis by simp
qed

text \<open>
  Claim C6 as it is written fails where two keys of the file resolve to the same user.
  In the example host the lookup of a user ignores case, so \<open>Alice\<close> and \<open>alice\<close> are
  two keys for one public id; both project names resolve and construction returns; the
  entry of the second key replaces the entry of the first, and the map gives the user
  the project of \<open>alice\<close> only, not the project listed under \<open>Alice\<close>.
\<close>

theorem init_alias_overwrites: "init example_host alias_items = Inr alias_self
  \<and> alias_items ! 0 = (''Alice'', [''p1''])
  \<and> get_user_id example_host alias_self ''Alice'' = Some ''pub-alice''
  \<and> named_project_ids example_host [''p1''] = [Some ''P1'']
  \<and> project_set alias_self ''pub-alice'' = {''P2''}
  \<and> ''P1'' \<notin> project_set alias_self ''pub-alice''"
  by (simp add: init_def example_defs get_role_id_def get_user_id_def named_project_ids_def
      init_project_lookup_def project_set_def)

text \<open>
  On the example file the key \<open>alice\<close> lists a project twice; two more keys follow it,
  an unknown user and another user.
\<close>

theorem init_resolves_names_witness:
  "init example_host ([] @ (''alice'', [''p1'', ''p2'', ''p1'']) # [(''ghost'', [''p1'']), (''bob'', [''p2''])])
     = Inr example_self
   \<and> get_user_id example_host example_self ''alice'' = Some ''pub-alice''
   \<and> ''pub-alice'' \<noteq> []
   \<and> get_user_id example_host example_self ''ghost'' = None
   \<and> get_user_id example_host example_self ''bob'' = Some ''pub-bob''
   \<and> named_project_ids example_host [''p1'', ''p2'', ''p1''] = [Some ''P1'', Some ''P2'', Some ''P1'']
   \<and> ''pub-alice'' \<in> user_keys example_self
   \<and> Some ` project_set example_self ''pub-alice''
       = set (named_project_ids example_host [''p1'', ''p2'', ''p1'']) - {Some []}
   \<and> project_set example_self ''pub-alice'' = {''P1'', ''P2''}"
proof -
  have a: "init example_host ([] @ (''alice'', [''p1'', ''p2'', ''p1'']) # [(''ghost'', [''p1'']), (''bob'', [''p2''])])
     = Inr example_self"
    using init_example by (simp add: example_items_def)
  have b: "get_user_id example_host example_self ''alice'' = Some ''pub-alice''"
    by (simp add: get_user_id_def example_host_def example_self_def)
  have c: "''pub-alice'' \<noteq> []" by simp
  have g: "get_user_id example_host example_self ''ghost'' = None"
    and bob: "get_user_id example_host example_self ''bob'' = Some ''pub-bob''"
    by (simp_all add: get_user_id_def example_host_def example_self_def)
  have d: "\<forall>n \<in> fst ` set [(''ghost'', [''p1'']), (''bob'', [''p2''])].
         get_user_id example_host example_self n \<noteq> Some ''pub-alice''"
    using g bob by simp
  have n: "named_project_ids example_host [''p1'', ''p2'', ''p1'']
             = [Some ''P1'', Some ''P2'', Some ''P1'']"
    by (simp add: named_project_ids_def example_host_def)
  have f: "\<forall>projectname \<in> set [''p1'', ''p2'', ''p1''].
         get_project_by_name example_host projectname (Some (default_domain_id example_host))
           \<noteq> None"
    by (simp add: example_host_def)
  have e: "project_set example_self ''pub-alice'' = {''P1'', ''P2''}"
    by (simp add: project_set_def example_self_def)
  from init_resolves_names [OF a b c d f] a b g bob n e show ?thesis by simp
qed

text \<open>
  On the example file the key \<open>ghost\<close> is unknown to the host.
\<close>

theorem init_skips_unknown_user_witness:
  "get_user_by_name example_host ''ghost'' (ldap_domain_name example_host) = None
   \<and> init example_host example_items = Inr example_self
   \<and> init example_host [(''alice'', [''p1'', ''p2'', ''p1'']), (''bob'', [''p2''])]
       = Inr example_self
   \<and> user_keys example_self = {''pub-alice'', ''pub-bob''}"
proof -
  have a: "get_user_by_name example_host ''ghost'' (ldap_domain_name example_host) = None"
    by (simp add: example_host_def)
  have b: "example_items =
     [(''alice'', [''p1'', ''p2'', ''p1''])] @ (''ghost'', [''p1'']) # [(''bob'', [''p2''])]"
    by (simp add: example_items_def)
  have c: "user_keys example_self = {''pub-alice'', ''pub-bob''}"
    by (simp add: user_keys_def example_self_def)
  from init_skips_unknown_user [OF a, of "[(''alice'', [''p1'', ''p2'', ''p1''])]" "[''p1'']"
      "[(''bob'', [''p2''])]"] a c init_example
  show ?thesis unfolding b [symmetric] by simp
qed

text \<open>
  On the example, calls that delete the assignments of a user, a project and the role of
  the map change the database and leave the map and the role id alone.
\<close>

theorem overlay_unchanged_by_calls_witness:
  "userprojectmap (fst (after_calls example_sql example_calls (example_self, example_db)))
     = [(''pub-alice'', [(''P1'', 1), (''P2'', 1)]), (''pub-bob'', [(''P2'', 1)])]
   \<and> role_id (fst (after_calls example_sql example_calls (example_self, example_db))) = ''r-member''
   \<and> snd (after_calls example_sql example_calls (example_self, example_db))
       = [(''carol'', ''P9'', ''r-admin''), (''pub-bob'', ''P1'', ''r-admin'')]"
  using overlay_unchanged_by_calls [of example_sql example_calls example_self example_db] after_example_calls
  by (simp add: example_self_def)

text \<open>
  On the example the role manager lists two roles under \<open>Member\<close>; the first is granted.
\<close>

theorem single_role_granted_witness:
  "init example_host example_items = Inr example_self
   \<and> after_calls example_sql example_calls (example_self, example_db)
       = (example_self, [(''carol'', ''P9'', ''r-admin''), (''pub-bob'', ''P1'', ''r-admin'')])
   \<and> default_roles example_host = [''Member'']
   \<and> list_roles example_host ''Member'' =
         [\<lparr>entity_id = ''r-member'', entity_name = ''Member''\<rparr>,
          \<lparr>entity_id = ''r-other'', entity_name = ''Member''\<rparr>]
   \<and> role_id example_self = ''r-member''
   \<and> fst (list_grant_role_ids example_sql (Some ''pub-bob'') None None (Some ''P2'') False
         (example_self, [(''carol'', ''P9'', ''r-admin''), (''pub-bob'', ''P1'', ''r-admin'')]))
       = [''r-member'']"
proof -
  have r: "default_roles example_host = [''Member'']"
      "list_roles example_host ''Member'' =
         [\<lparr>entity_id = ''r-member'', entity_name = ''Member''\<rparr>,
          \<lparr>entity_id = ''r-other'', entity_name = ''Member''\<rparr>]"
    by (simp_all add: example_host_def)
  have g: "sql_list_grant_role_ids example_sql (Some ''pub-bob'') None None (Some ''P2'') False
      [(''carol'', ''P9'', ''r-admin''), (''pub-bob'', ''P1'', ''r-admin'')] = []"
    by (simp add: example_sql_def)
  have l: "fst (list_grant_role_ids example_sql (Some ''pub-bob'') None None (Some ''P2'') False
         (example_self, [(''carol'', ''P9'', ''r-admin''), (''pub-bob'', ''P1'', ''r-admin'')]))
       \<noteq> []"
    by (simp add: list_grant_role_ids_def example_self_def)
  from single_role_granted [OF init_example after_example_calls, of "Some ''pub-bob''" None None "Some ''P2''" False
      None None None None None None "''r-member''"] r g l init_example after_example_calls
  show ?thesis by auto
qed

text \<open>
  Two writes on the example.
\<close>

theorem writes_forward_to_sql_witness:
  "add_role_to_user_and_project example_sql ''pub-bob'' ''P1'' ''r-admin'' (example_self, example_db)
     = ((), example_self, example_db @ [(''pub-bob'', ''P1'', ''r-admin'')])
   \<and> delete_user_assignments example_sql ''pub-alice'' (example_self, example_db)
     = ((), example_self, [(''carol'', ''P9'', ''r-admin'')])"
  using writes_forward_to_sql [of example_sql "''pub-bob''" "''P1''" "''r-admin''" example_self example_db
      None None None None False "''pub-alice''"]
  by (simp add: example_sql_def example_db_def)

end
